theory Spec2Isabelle
  imports Complex_Main
begin

section \<open>The UnivNet feature extractor (feature\_extraction\_univnet.py)\<close>

text \<open>
  A shallow embedding of \<^verbatim>\<open>UnivNetFeatureExtractor\<close>. The class computes with NumPy
  floating-point arrays. An item of an array is a finite number, an infinity or NaN. The
  arithmetic on items is idealised: the rules by which the infinities and NaN arise and
  propagate are NumPy's, but a finite result is the exact real one, so rounding, overflow
  to infinity and the sign of a zero are not in it, and a cast of an array between
  \<^verbatim>\<open>float32\<close> and \<^verbatim>\<open>float64\<close> changes no item. The properties below are about the
  structure of the computation (its order, its shapes, its exceptions, what it reads);
  where one of them gives the number an item holds, that number is exact in the code as
  well. The one cast that decides such a number, that of the fill value of
  \<^verbatim>\<open>np.full(..., dtype=np.float32)\<close>, is modelled bit for bit (\<open>float32\<close>).
\<close>

subsection \<open>NumPy scalars\<close>

datatype npfloat = Fin real | PInf | NInf | NaN

fun np_neg :: "npfloat \<Rightarrow> npfloat" where
  "np_neg (Fin a) = Fin (- a)"
| "np_neg PInf = NInf"
| "np_neg NInf = PInf"
| "np_neg NaN = NaN"

fun np_add :: "npfloat \<Rightarrow> npfloat \<Rightarrow> npfloat" where
  "np_add (Fin a) (Fin b) = Fin (a + b)"
| "np_add (Fin a) PInf = PInf"
| "np_add (Fin a) NInf = NInf"
| "np_add PInf (Fin b) = PInf"
| "np_add PInf PInf = PInf"
| "np_add PInf NInf = NaN"
| "np_add NInf (Fin b) = NInf"
| "np_add NInf PInf = NaN"
| "np_add NInf NInf = NInf"
| "np_add NaN y = NaN"
| "np_add x NaN = NaN"

definition np_sub :: "npfloat \<Rightarrow> npfloat \<Rightarrow> npfloat" where
  "np_sub x y = np_add x (np_neg y)"

text \<open>The sign of an infinity times a finite factor; zero times an infinity is NaN.\<close>

definition signed_inf :: "real \<Rightarrow> npfloat \<Rightarrow> npfloat" where
  "signed_inf a v = (if a = 0 then NaN else if 0 < a then v else np_neg v)"

fun np_mul :: "npfloat \<Rightarrow> npfloat \<Rightarrow> npfloat" where
  "np_mul (Fin a) (Fin b) = Fin (a * b)"
| "np_mul (Fin a) PInf = signed_inf a PInf"
| "np_mul (Fin a) NInf = signed_inf a NInf"
| "np_mul PInf (Fin b) = signed_inf b PInf"
| "np_mul NInf (Fin b) = signed_inf b NInf"
| "np_mul PInf PInf = PInf"
| "np_mul PInf NInf = NInf"
| "np_mul NInf PInf = NInf"
| "np_mul NInf NInf = PInf"
| "np_mul NaN y = NaN"
| "np_mul x NaN = NaN"

text \<open>
  Division of arrays never raises: a zero divisor gives NaN (for \<open>0 / 0\<close>) or an infinity.
  A zero divisor is read as \<open>+0.0\<close>.
\<close>

fun np_div :: "npfloat \<Rightarrow> npfloat \<Rightarrow> npfloat" where
  "np_div (Fin a) (Fin b) =
     (if b \<noteq> 0 then Fin (a / b)
      else if a = 0 then NaN else if 0 < a then PInf else NInf)"
| "np_div (Fin a) PInf = Fin 0"
| "np_div (Fin a) NInf = Fin 0"
| "np_div PInf (Fin b) = (if 0 \<le> b then PInf else NInf)"
| "np_div NInf (Fin b) = (if 0 \<le> b then NInf else PInf)"
| "np_div PInf PInf = NaN"
| "np_div PInf NInf = NaN"
| "np_div NInf PInf = NaN"
| "np_div NInf NInf = NaN"
| "np_div NaN y = NaN"
| "np_div x NaN = NaN"

text \<open>\<^verbatim>\<open>np.maximum\<close>, which is \<^verbatim>\<open>np.clip(x, a_min=y, a_max=None)\<close>: NaN propagates.\<close>

fun np_maximum :: "npfloat \<Rightarrow> npfloat \<Rightarrow> npfloat" where
  "np_maximum (Fin a) (Fin b) = Fin (max a b)"
| "np_maximum (Fin a) PInf = PInf"
| "np_maximum (Fin a) NInf = Fin a"
| "np_maximum PInf (Fin b) = PInf"
| "np_maximum PInf PInf = PInf"
| "np_maximum PInf NInf = PInf"
| "np_maximum NInf (Fin b) = Fin b"
| "np_maximum NInf PInf = PInf"
| "np_maximum NInf NInf = NInf"
| "np_maximum NaN y = NaN"
| "np_maximum x NaN = NaN"

fun np_log :: "npfloat \<Rightarrow> npfloat" where
  "np_log (Fin a) = (if 0 < a then Fin (ln a) else if a = 0 then NInf else NaN)"
| "np_log PInf = PInf"
| "np_log NInf = NaN"
| "np_log NaN = NaN"

fun np_sqrt :: "npfloat \<Rightarrow> npfloat" where
  "np_sqrt (Fin a) = (if 0 \<le> a then Fin (sqrt a) else NaN)"
| "np_sqrt PInf = PInf"
| "np_sqrt NInf = NaN"
| "np_sqrt NaN = NaN"

text \<open>\<^verbatim>\<open>x ** 2\<close>.\<close>

definition np_square :: "npfloat \<Rightarrow> npfloat" where
  "np_square x = np_mul x x"

text \<open>
  The cast of a Python float to \<^verbatim>\<open>float32\<close> (IEEE 754 binary32: 24 bits of precision,
  exponents from \<open>-126\<close> to \<open>127\<close>): rounding to the nearest representable number,
  ties to the even one, and to an infinity from \<open>2\<^sup>1\<^sup>2\<^sup>8 - 2\<^sup>1\<^sup>0\<^sup>3\<close> on. \<open>ulp\<close> is the
  distance between neighbouring representable numbers around \<open>x\<close>.
\<close>

definition round_half_even :: "real \<Rightarrow> int" where
  "round_half_even q =
     (let f = \<lfloor>q\<rfloor>; d = q - of_int f
      in if d < 1 / 2 then f else if 1 / 2 < d then f + 1 else if even f then f else f + 1)"

definition two_to :: "int \<Rightarrow> real" where
  "two_to e = (if 0 \<le> e then 2 ^ nat e else 1 / 2 ^ nat (- e))"

definition float32 :: "real \<Rightarrow> npfloat" where
  "float32 x =
     (if x = 0 then Fin 0
      else let e = max \<lfloor>log 2 \<bar>x\<bar>\<rfloor> (- 126);
               ulp = two_to (e - 23);
               y = of_int (round_half_even (x / ulp)) * ulp
           in if 2 ^ 128 \<le> \<bar>y\<bar> then (if 0 < x then PInf else NInf) else Fin y)"

subsection \<open>The extractor's attributes\<close>

text \<open>
  A two-dimensional array: its shape and its items. Only the items inside the shape are
  meaningful.
\<close>

datatype 'a array2 = Array2 (shape0: nat) (shape1: nat) (item: "nat \<Rightarrow> nat \<Rightarrow> 'a")

text \<open>
  The attributes \<^verbatim>\<open>__init__\<close> sets (lines 123--173), the derived ones included
  (\<open>num_max_samples\<close>, \<open>n_fft\<close>, \<open>n_freqs\<close>, \<open>window\<close>, \<open>mel_filters\<close>). The
  Python floats of the configuration are finite.
\<close>

record extractor =
  feature_size :: int
  sampling_rate :: int
  padding_value :: real
  do_normalize :: bool
  num_mel_bins :: int
  hop_length :: int
  win_length :: int
  win_function :: string
  filter_length :: "int option"
  fmin :: real
  fmax :: real
  mel_floor :: real
  max_length_s :: int
  num_max_samples :: int
  n_fft :: int
  n_freqs :: int
  window :: "npfloat list"
  mel_filters :: "npfloat array2"
  center :: bool
  compression_factor :: real
  compression_clip_val :: real
  normalize_min :: real
  normalize_max :: real
  model_in_channels :: int
  pad_end_length :: int
  spectrogram_zero :: real

subsection \<open>Compression and normalisation (lines 177--186)\<close>

text \<open>
  The methods are written for arrays; NumPy applies the expression to each item, so they
  are given here on one item. \<open>normalize\<close> is a constant of HOL already, hence
  \<open>normalize_spectrogram\<close>. The two inverse methods, \<^verbatim>\<open>dynamic_range_decompression\<close>
  and \<^verbatim>\<open>denormalize\<close>, are called nowhere in the class and are not needed below.
\<close>

definition dynamic_range_compression :: "extractor \<Rightarrow> npfloat \<Rightarrow> npfloat" where
  "dynamic_range_compression self waveform =
     np_log (np_mul (np_maximum waveform (Fin (compression_clip_val self)))
                    (Fin (compression_factor self)))"

definition normalize_spectrogram :: "extractor \<Rightarrow> npfloat \<Rightarrow> npfloat" where
  "normalize_spectrogram self x =
     np_sub (np_mul (Fin 2)
                    (np_div (np_sub x (Fin (normalize_min self)))
                            (Fin (normalize_max self - normalize_min self))))
            (Fin 1)"

text \<open>
  The attributes after \<^verbatim>\<open>__init__()\<close> with every argument at its default (lines
  100--120), given the window and the mel filter bank that \<^verbatim>\<open>audio_utils\<close> computes.
\<close>

definition default_extractor :: "npfloat list \<Rightarrow> npfloat array2 \<Rightarrow> extractor" where
  "default_extractor win filters =
     \<lparr> feature_size = 1, sampling_rate = 24000, padding_value = 0, do_normalize = False,
       num_mel_bins = 100, hop_length = 256, win_length = 1024,
       win_function = ''hann_window'', filter_length = Some 1024, fmin = 0, fmax = 12000,
       mel_floor = 1 / 10 ^ 9, max_length_s = 10, num_max_samples = 10 * 24000,
       n_fft = 1024, n_freqs = 1024 div 2 + 1, window = win, mel_filters = filters,
       center = False, compression_factor = 1, compression_clip_val = 1 / 10 ^ 5,
       normalize_min = - 11512925148010254 / 10 ^ 15,
       normalize_max = 23143386840820312 / 10 ^ 16,
       model_in_channels = 64, pad_end_length = 10, spectrogram_zero = - 115129 / 10 ^ 4 \<rparr>"

subsection \<open>Errors and arrays\<close>

text \<open>
  The exceptions of the class and of the NumPy calls it makes. \<open>SamplingRateMismatch\<close> is
  the \<^verbatim>\<open>ValueError\<close> of lines 382--386, with the two rates its message prints: the
  configured one and the received one. \<open>MonoChannelOnly\<close> is the \<^verbatim>\<open>ValueError\<close> of
  line 395. The last three stand for whatever the collaborators raise.
\<close>

datatype error =
    SamplingRateMismatch int int
  | MonoChannelOnly
  | IndexError
  | NegativePadWidth
  | EmptyAxisPad
  | NegativeDimensions
  | ShapeMismatch
  | PadFailed
  | SpectrogramFailed
  | ConvertFailed

definition map_array2 :: "('a \<Rightarrow> 'b) \<Rightarrow> 'a array2 \<Rightarrow> 'b array2" where
  "map_array2 f a = Array2 (shape0 a) (shape1 a) (\<lambda>i j. f (item a i j))"

text \<open>The sum of two arrays of one shape, item by item.\<close>

definition add_array2 :: "npfloat array2 \<Rightarrow> npfloat array2 \<Rightarrow> npfloat array2" where
  "add_array2 a b = Array2 (shape0 a) (shape1 a) (\<lambda>i j. np_add (item a i j) (item b i j))"

text \<open>\<^verbatim>\<open>a.T\<close>.\<close>

definition transpose_array2 :: "'a array2 \<Rightarrow> 'a array2" where
  "transpose_array2 a = Array2 (shape1 a) (shape0 a) (\<lambda>i j. item a j i)"

definition np_sum :: "npfloat list \<Rightarrow> npfloat" where
  "np_sum xs = foldl np_add (Fin 0) xs"

definition np_matmul :: "npfloat array2 \<Rightarrow> npfloat array2 \<Rightarrow> error + npfloat array2" where
  "np_matmul a b =
     (if shape1 a \<noteq> shape0 b then Inl ShapeMismatch
      else Inr (Array2 (shape0 a) (shape1 b)
                  (\<lambda>i j. np_sum (map (\<lambda>k. np_mul (item a i k) (item b k j)) [0..<shape1 a]))))"

text \<open>
  \<^verbatim>\<open>np.full((n, m), v, dtype=np.float32)\<close> for a Python float \<open>v\<close>: every item is
  \<open>v\<close> cast to \<^verbatim>\<open>float32\<close>.
\<close>

definition np_full :: "int \<Rightarrow> nat \<Rightarrow> real \<Rightarrow> error + npfloat array2" where
  "np_full n m v =
     (if n < 0 then Inl NegativeDimensions else Inr (Array2 (nat n) m (\<lambda>i j. float32 v)))"

text \<open>\<^verbatim>\<open>np.concatenate([a, b], axis=-2)\<close>.\<close>

definition np_concatenate :: "'a array2 \<Rightarrow> 'a array2 \<Rightarrow> error + 'a array2" where
  "np_concatenate a b =
     (if shape1 a \<noteq> shape1 b then Inl ShapeMismatch
      else Inr (Array2 (shape0 a + shape0 b) (shape1 a)
                  (\<lambda>i j. if i < shape0 a then item a i j else item b (i - shape0 a) j)))"

text \<open>
  \<^verbatim>\<open>np.pad(a, (p, p), mode="reflect")\<close> on a one-dimensional array. A negative width
  and a non-zero width on an empty array raise; an array of one item is extended by that
  item; otherwise the array is mirrored at its ends without repeating the end item, again
  and again when the width exceeds the length, so the result reads the array with period
  \<open>2 * (length a - 1)\<close>.
\<close>

definition reflect_index :: "nat \<Rightarrow> int \<Rightarrow> nat" where
  "reflect_index n i =
     (let period = 2 * (int n - 1); r = i mod period
      in nat (if r < int n then r else period - r))"

definition np_pad_reflect :: "'a list \<Rightarrow> int \<Rightarrow> error + 'a list" where
  "np_pad_reflect a p =
     (if p < 0 then Inl NegativePadWidth
      else if a = [] then (if 0 < p then Inl EmptyAxisPad else Inr [])
      else if length a = 1 then Inr (replicate (nat p + 1 + nat p) (hd a))
      else Inr (map (\<lambda>i. a ! reflect_index (length a) (int i - p))
                    [0..<nat p + length a + nat p]))"

text \<open>\<^verbatim>\<open>int(d / 2)\<close> for an integer \<open>d\<close>: true division, then truncation toward zero.\<close>

definition int_half :: "int \<Rightarrow> int" where
  "int_half d = (if 0 \<le> d then d div 2 else - ((- d) div 2))"

text \<open>A list comprehension whose body may raise: the first exception ends it.\<close>

fun map_result :: "('a \<Rightarrow> error + 'b) \<Rightarrow> 'a list \<Rightarrow> error + 'b list" where
  "map_result f [] = Inr []"
| "map_result f (x # xs) =
     (case f x of
        Inl e \<Rightarrow> Inl e
      | Inr y \<Rightarrow> (case map_result f xs of Inl e \<Rightarrow> Inl e | Inr ys \<Rightarrow> Inr (y # ys)))"

subsection \<open>Arguments, results and collaborators\<close>

datatype padding_strategy = LONGEST | MAX_LENGTH | DO_NOT_PAD

datatype padding_arg = PaddingBool bool | PaddingStr string | PaddingEnum padding_strategy

text \<open>
  \<^verbatim>\<open>raw_speech\<close>: a NumPy array of one dimension, of two (its rows), or of three and more
  (its first three dimensions and the rest of its shape; its items are never read), a list
  of floats, or a list of sequences.
\<close>

datatype raw_speech =
    Ndarray1 "npfloat list"
  | Ndarray2 "npfloat list list"
  | NdarrayN nat nat nat "nat list"
  | FloatList "npfloat list"
  | SeqList "npfloat list list"

text \<open>The arguments of \<^verbatim>\<open>__call__\<close> but \<^verbatim>\<open>raw_speech\<close> and \<^verbatim>\<open>generator\<close>.\<close>

record call_args =
  sampling_rate_arg :: "int option"
  padding :: padding_arg
  max_length :: "int option"
  truncation :: bool
  pad_to_multiple_of :: "int option"
  return_noise :: bool
  model_in_channels_arg :: "int option"
  pad_end :: bool
  pad_length :: "int option"
  spectrogram_zero_arg :: "real option"
  do_normalize_arg :: "bool option"
  return_tensors :: "string option"

text \<open>
  The returned \<^verbatim>\<open>BatchFeature\<close>: the key \<^verbatim>\<open>"spectrogram"\<close> and, when noise was asked
  for, the key \<^verbatim>\<open>"noise_sequence"\<close> (\<^verbatim>\<open>"input_features"\<close> is deleted in line 432).
\<close>

record batch_feature =
  spectrogram :: "npfloat array2 list"
  noise_sequence :: "npfloat array2 list option"

datatype warning = SamplingRateNotPassed

text \<open>
  What the class calls and this file does not hold. \<open>'g\<close> is the state of a
  \<^verbatim>\<open>numpy.random.Generator\<close>, \<open>'e\<close> the entropy of the operating system.
  \<^item> \<open>sequence_pad\<close> is \<^verbatim>\<open>SequenceFeatureExtractor.pad\<close>, called with the batch,
    \<^verbatim>\<open>padding\<close>, \<^verbatim>\<open>max_length\<close>, \<^verbatim>\<open>truncation\<close>, \<^verbatim>\<open>pad_to_multiple_of\<close> and
    \<^verbatim>\<open>return_attention_mask=False\<close>; \<open>None\<close> when it raises.
  \<^item> \<open>audio_spectrogram\<close> is \<^verbatim>\<open>audio_utils.spectrogram\<close>, called with the waveform,
    \<^verbatim>\<open>window\<close>, \<^verbatim>\<open>frame_length\<close>, \<^verbatim>\<open>hop_length\<close>, \<^verbatim>\<open>fft_length\<close>, \<^verbatim>\<open>center\<close> and
    \<^verbatim>\<open>power=None, mel_filters=None, mel_floor=None\<close>: the complex spectrogram, each item
    its real and imaginary part, of shape (frequency bins, frames); \<open>None\<close> when it
    raises.
  \<^item> \<open>convertible\<close>: whether \<^verbatim>\<open>BatchFeature.convert_to_tensors\<close> succeeds.
  \<^item> \<open>draw\<close> is one sample of \<^verbatim>\<open>Generator.standard_normal\<close>; \<open>default_rng\<close> is
    \<^verbatim>\<open>np.random.default_rng()\<close>, which seeds a new generator from fresh entropy.
\<close>

record ('g, 'e) collaborators =
  sequence_pad :: "extractor \<Rightarrow> npfloat list list \<Rightarrow> padding_arg \<Rightarrow> int \<Rightarrow> bool \<Rightarrow> int option
                     \<Rightarrow> npfloat list list option"
  audio_spectrogram :: "npfloat list \<Rightarrow> npfloat list \<Rightarrow> int \<Rightarrow> int \<Rightarrow> int \<Rightarrow> bool
                          \<Rightarrow> (npfloat \<times> npfloat) array2 option"
  convertible :: "string \<Rightarrow> batch_feature \<Rightarrow> bool"
  draw :: "'g \<Rightarrow> npfloat \<times> 'g"
  default_rng :: "'e \<Rightarrow> 'g \<times> 'e"

subsection \<open>\<^verbatim>\<open>mel_spectrogram\<close> (lines 191--234)\<close>

definition mel_spectrogram ::
  "('g, 'e) collaborators \<Rightarrow> extractor \<Rightarrow> npfloat list \<Rightarrow> error + npfloat array2" where
  "mel_spectrogram K self waveform =
     (case np_pad_reflect waveform (int_half (n_fft self - hop_length self)) of
        Inl e \<Rightarrow> Inl e
      | Inr padded \<Rightarrow>
         (case audio_spectrogram K padded (window self) (n_fft self) (hop_length self)
                 (n_fft self) (center self) of
            None \<Rightarrow> Inl SpectrogramFailed
          | Some complex_spectrogram \<Rightarrow>
             (let amplitude_spectrogram =
                    map_array2 np_sqrt
                      (map_array2 (\<lambda>v. np_add v (Fin (mel_floor self)))
                         (add_array2 (map_array2 np_square (map_array2 fst complex_spectrogram))
                                     (map_array2 np_square (map_array2 snd complex_spectrogram))))
              in case np_matmul (transpose_array2 (mel_filters self)) amplitude_spectrogram of
                   Inl e \<Rightarrow> Inl e
                 | Inr mel \<Rightarrow>
                    Inr (transpose_array2 (map_array2 (dynamic_range_compression self) mel)))))"

subsection \<open>\<^verbatim>\<open>generate_noise\<close> (lines 236--268)\<close>

fun draws :: "('g \<Rightarrow> npfloat \<times> 'g) \<Rightarrow> nat \<Rightarrow> 'g \<Rightarrow> npfloat list \<times> 'g" where
  "draws d 0 g = ([], g)"
| "draws d (Suc n) g =
     (case d g of (x, g') \<Rightarrow> (case draws d n g' of (xs, g'') \<Rightarrow> (x # xs, g'')))"

text \<open>
  \<^verbatim>\<open>generator.standard_normal((n, m), dtype=np.float32)\<close>: the items are drawn one after
  the other, row by row; the generator's new state is returned with the array.
\<close>

definition standard_normal ::
  "('g, 'e) collaborators \<Rightarrow> 'g \<Rightarrow> int \<Rightarrow> int \<Rightarrow> error + (npfloat array2 \<times> 'g)" where
  "standard_normal K g n m =
     (if n < 0 \<or> m < 0 then Inl NegativeDimensions
      else (case draws (draw K) (nat n * nat m) g of
              (xs, g') \<Rightarrow> Inr (Array2 (nat n) (nat m) (\<lambda>i j. xs ! (i * nat m + j)), g')))"

text \<open>
  The result, the caller's generator afterwards (a generator made here is dropped), and
  the entropy afterwards.
\<close>

definition generate_noise ::
  "('g, 'e) collaborators \<Rightarrow> extractor \<Rightarrow> int \<Rightarrow> int option \<Rightarrow> 'g option \<Rightarrow> 'e
     \<Rightarrow> (error + npfloat array2) \<times> 'g option \<times> 'e" where
  "generate_noise K self noise_length model_in_channels_opt generator entropy =
     (let channels = (case model_in_channels_opt of
                        None \<Rightarrow> model_in_channels self | Some m \<Rightarrow> m)
      in case (case generator of
                 None \<Rightarrow> default_rng K entropy | Some g \<Rightarrow> (g, entropy)) of
           (g, entropy') \<Rightarrow>
             (case standard_normal K g noise_length channels of
                Inl e \<Rightarrow> (Inl e, generator, entropy')
              | Inr (noise, g') \<Rightarrow> (Inr noise, map_option (\<lambda>_. g') generator, entropy')))"

subsection \<open>\<^verbatim>\<open>pad_spectrogram_end\<close> (lines 270--301)\<close>

definition pad_spectrogram_end ::
  "extractor \<Rightarrow> npfloat array2 \<Rightarrow> int option \<Rightarrow> real option \<Rightarrow> error + npfloat array2" where
  "pad_spectrogram_end self spec pad_length_opt spectrogram_zero_opt =
     (let n = (case pad_length_opt of None \<Rightarrow> pad_end_length self | Some n \<Rightarrow> n);
          z = (case spectrogram_zero_opt of None \<Rightarrow> spectrogram_zero self | Some z \<Rightarrow> z)
      in case np_full n (shape1 spec) z of
           Inl e \<Rightarrow> Inl e
         | Inr padding_zeros \<Rightarrow> np_concatenate spec padding_zeros)"

subsection \<open>\<^verbatim>\<open>__call__\<close> (lines 303--455)\<close>

text \<open>Lines 380--391: the sampling rate is checked first.\<close>

definition check_sampling_rate :: "extractor \<Rightarrow> int option \<Rightarrow> error + warning list" where
  "check_sampling_rate self rate =
     (case rate of
        Some r \<Rightarrow>
          if r \<noteq> sampling_rate self then Inl (SamplingRateMismatch (sampling_rate self) r)
          else Inr []
      | None \<Rightarrow> Inr [SamplingRateNotPassed])"

text \<open>
  Lines 393--409: an array of more than two dimensions is refused; \<^verbatim>\<open>raw_speech[0]\<close>
  of an empty list raises; the result is always a batch. The casts to \<^verbatim>\<open>float32\<close>
  change no value here.
\<close>

fun batch_raw_speech :: "raw_speech \<Rightarrow> error + npfloat list list" where
  "batch_raw_speech (Ndarray1 xs) = Inr [xs]"
| "batch_raw_speech (Ndarray2 rows) = Inr rows"
| "batch_raw_speech (NdarrayN d0 d1 d2 ds) = Inl MonoChannelOnly"
| "batch_raw_speech (FloatList []) = Inl IndexError"
| "batch_raw_speech (FloatList (x # xs)) = Inr [x # xs]"
| "batch_raw_speech (SeqList []) = Inl IndexError"
| "batch_raw_speech (SeqList (xs # xss)) = Inr (xs # xss)"

text \<open>
  Lines 411--438: the batch is padded, every waveform becomes a spectrogram
  (\<^verbatim>\<open>input_features[0]\<close> of an empty batch raises), and the end of every spectrogram is
  padded when asked for.
\<close>

definition mel_spectrograms ::
  "('g, 'e) collaborators \<Rightarrow> extractor \<Rightarrow> call_args \<Rightarrow> npfloat list list
     \<Rightarrow> error + npfloat array2 list" where
  "mel_spectrograms K self a batch =
     (case sequence_pad K self batch (padding a)
             (case max_length a of Some n \<Rightarrow> n | None \<Rightarrow> num_max_samples self)
             (truncation a) (pad_to_multiple_of a) of
        None \<Rightarrow> Inl PadFailed
      | Some input_features \<Rightarrow>
         (case map_result (mel_spectrogram K self) input_features of
            Inl e \<Rightarrow> Inl e
          | Inr mels \<Rightarrow> if input_features = [] then Inl IndexError else Inr mels))"

definition padded_spectrograms ::
  "('g, 'e) collaborators \<Rightarrow> extractor \<Rightarrow> call_args \<Rightarrow> npfloat list list
     \<Rightarrow> error + npfloat array2 list" where
  "padded_spectrograms K self a batch =
     (case mel_spectrograms K self a batch of
        Inl e \<Rightarrow> Inl e
      | Inr mels \<Rightarrow>
         if pad_end a
         then map_result (\<lambda>s. pad_spectrogram_end self s (pad_length a) (spectrogram_zero_arg a))
                mels
         else Inr mels)"

text \<open>Lines 440--445: one noise array per spectrogram, in order, from the one generator.\<close>

fun generate_noises ::
  "('g, 'e) collaborators \<Rightarrow> extractor \<Rightarrow> int option \<Rightarrow> npfloat array2 list \<Rightarrow> 'g option \<Rightarrow> 'e
     \<Rightarrow> (error + npfloat array2 list) \<times> 'g option \<times> 'e" where
  "generate_noises K self channels [] generator entropy = (Inr [], generator, entropy)"
| "generate_noises K self channels (s # ss) generator entropy =
     (case generate_noise K self (int (shape0 s)) channels generator entropy of
        (Inl e, generator', entropy') \<Rightarrow> (Inl e, generator', entropy')
      | (Inr noise, generator', entropy') \<Rightarrow>
          (case generate_noises K self channels ss generator' entropy' of
             (Inl e, generator'', entropy'') \<Rightarrow> (Inl e, generator'', entropy'')
           | (Inr noises, generator'', entropy'') \<Rightarrow>
               (Inr (noise # noises), generator'', entropy'')))"

text \<open>
  What a call leaves behind: the batch or the exception, the warnings logged, the caller's
  generator and the entropy.
\<close>

record ('g, 'e) call_result =
  outcome :: "error + batch_feature"
  warnings :: "warning list"
  generator_after :: "'g option"
  entropy_after :: "'e"

text \<open>
  \<^verbatim>\<open>BatchFeature.convert_to_tensors\<close> is not in this file: whether it succeeds is the
  collaborator \<open>convertible\<close>. It converts the structure to the representation asked
  for and changes no shape and no item.
\<close>

definition convert_to_tensors ::
  "('g, 'e) collaborators \<Rightarrow> string option \<Rightarrow> batch_feature \<Rightarrow> error + batch_feature" where
  "convert_to_tensors K tensors b =
     (case tensors of
        None \<Rightarrow> Inr b
      | Some t \<Rightarrow> if convertible K t b then Inr b else Inl ConvertFailed)"

definition call ::
  "('g, 'e) collaborators \<Rightarrow> extractor \<Rightarrow> raw_speech \<Rightarrow> call_args \<Rightarrow> 'g option \<Rightarrow> 'e
     \<Rightarrow> ('g, 'e) call_result" where
  "call K self raw a generator entropy =
     (let normalizing = (case do_normalize_arg a of Some b \<Rightarrow> b | None \<Rightarrow> do_normalize self)
      in case check_sampling_rate self (sampling_rate_arg a) of
           Inl e \<Rightarrow> \<lparr>outcome = Inl e, warnings = [], generator_after = generator,
                     entropy_after = entropy\<rparr>
         | Inr ws \<Rightarrow>
            (case batch_raw_speech raw of
               Inl e \<Rightarrow> \<lparr>outcome = Inl e, warnings = ws, generator_after = generator,
                         entropy_after = entropy\<rparr>
             | Inr batch \<Rightarrow>
                (case padded_spectrograms K self a batch of
                   Inl e \<Rightarrow> \<lparr>outcome = Inl e, warnings = ws, generator_after = generator,
                             entropy_after = entropy\<rparr>
                 | Inr specs \<Rightarrow>
                    (case (if return_noise a
                           then (case generate_noises K self (model_in_channels_arg a) specs
                                        generator entropy of
                                   (r, g, e) \<Rightarrow> (map_sum id Some r, g, e))
                           else (Inr None, generator, entropy)) of
                       (Inl e, generator', entropy') \<Rightarrow>
                         \<lparr>outcome = Inl e, warnings = ws, generator_after = generator',
                          entropy_after = entropy'\<rparr>
                     | (Inr noise, generator', entropy') \<Rightarrow>
                         \<lparr>outcome =
                            convert_to_tensors K (return_tensors a)
                              \<lparr>spectrogram =
                                 (if normalizing
                                  then map (map_array2 (normalize_spectrogram self)) specs
                                  else specs),
                               noise_sequence = noise\<rparr>,
                          warnings = ws, generator_after = generator',
                          entropy_after = entropy'\<rparr>))))"

subsection \<open>\<^verbatim>\<open>to_dict\<close> (lines 457--466)\<close>

definition names :: "string list" where
  "names = [''window'', ''mel_filters'', ''n_fft'', ''n_freqs'', ''num_max_samples'']"

text \<open>\<open>output\<close> is what \<^verbatim>\<open>super().to_dict()\<close> returns.\<close>

definition to_dict :: "(string \<rightharpoonup> 'v) \<Rightarrow> (string \<rightharpoonup> 'v)" where
  "to_dict output =
     fold (\<lambda>name out. case out name of None \<Rightarrow> out | Some v \<Rightarrow> out(name := None))
          names output"

subsection \<open>The pipeline as the specification words it\<close>

text \<open>
  The magnitude is \<open>sqrt(real\<^sup>2 + imag\<^sup>2 + mel-floor)\<close>; the mel projection is the matrix
  product of the transposed mel filter bank and the magnitude spectrogram; the compression
  is the natural logarithm of \<open>clip(x, lower bound, unbounded) \<times> compression factor\<close>;
  frames are the leading axis of the result.
\<close>

definition spec_magnitude :: "extractor \<Rightarrow> npfloat \<times> npfloat \<Rightarrow> npfloat" where
  "spec_magnitude self z =
     np_sqrt (np_add (np_add (np_square (fst z)) (np_square (snd z))) (Fin (mel_floor self)))"

definition spec_mel_projection ::
  "extractor \<Rightarrow> (npfloat \<times> npfloat) array2 \<Rightarrow> nat \<Rightarrow> nat \<Rightarrow> npfloat" where
  "spec_mel_projection self stft bin frame =
     np_sum (map (\<lambda>f. np_mul (item (mel_filters self) f bin)
                             (spec_magnitude self (item stft f frame)))
                 [0..<shape0 (mel_filters self)])"

definition spec_compression :: "extractor \<Rightarrow> npfloat \<Rightarrow> npfloat" where
  "spec_compression self x =
     np_log (np_mul (np_maximum x (Fin (compression_clip_val self)))
                    (Fin (compression_factor self)))"

definition spec_log_mel ::
  "('g, 'e) collaborators \<Rightarrow> extractor \<Rightarrow> npfloat list \<Rightarrow> error + npfloat array2" where
  "spec_log_mel K self waveform =
     (case np_pad_reflect waveform (int_half (n_fft self - hop_length self)) of
        Inl e \<Rightarrow> Inl e
      | Inr padded \<Rightarrow>
         (case audio_spectrogram K padded (window self) (n_fft self) (hop_length self)
                 (n_fft self) (center self) of
            None \<Rightarrow> Inl SpectrogramFailed
          | Some stft \<Rightarrow>
             if shape0 (mel_filters self) \<noteq> shape0 stft then Inl ShapeMismatch
             else Inr (Array2 (shape1 stft) (shape1 (mel_filters self))
                         (\<lambda>frame bin.
                            spec_compression self (spec_mel_projection self stft bin frame)))))"

text \<open>
  Modelled from the spec: \<^verbatim>\<open>audio_utils.spectrogram\<close> is not in the sources. The spec
  has the frame count of the spectrogram be a deterministic function of padded waveform
  length, FFT size, hop length, and centering flag: \<open>frames\<close> is that function, of the
  length of the waveform handed over, the frame length, the hop length, the FFT length and
  the centering flag.
\<close>

definition frame_count_is ::
  "('g, 'e) collaborators \<Rightarrow> (nat \<Rightarrow> int \<Rightarrow> int \<Rightarrow> int \<Rightarrow> bool \<Rightarrow> nat) \<Rightarrow> bool" where
  "frame_count_is K frames =
     (\<forall>w win frame_length hop fft_length centered s.
        audio_spectrogram K w win frame_length hop fft_length centered = Some s \<longrightarrow>
        shape1 s = frames (length w) frame_length hop fft_length centered)"

text \<open>The exceptions that can arise after the two validations of \<^verbatim>\<open>__call__\<close>.\<close>

definition later_errors :: "error set" where
  "later_errors =
     {IndexError, NegativePadWidth, EmptyAxisPad, NegativeDimensions, ShapeMismatch,
      PadFailed, SpectrogramFailed, ConvertFailed}"

subsection \<open>Stand-ins for the examples\<close>

text \<open>
  Collaborators for the worked examples: no padding of the batch; a spectrogram of
  \<open>fft_length div 2 + 1\<close> bins and \<open>1 + (length - frame_length) div hop\<close> frames whose
  items are the first sample of their frame; a conversion that succeeds; a generator that
  counts.
\<close>

definition example_collaborators :: "(nat, nat) collaborators" where
  "example_collaborators =
     \<lparr> sequence_pad = (\<lambda>self batch padding max_length truncation multiple. Some batch),
       audio_spectrogram =
         (\<lambda>w win frame_length hop fft_length centered.
            if int (length win) \<noteq> frame_length \<or> hop \<le> 0 \<or> int (length w) < frame_length
            then None
            else Some (Array2 (nat (fft_length div 2 + 1))
                         (nat (1 + (int (length w) - frame_length) div hop))
                         (\<lambda>f t. (w ! (t * nat hop), Fin 0)))),
       convertible = (\<lambda>t b. True),
       draw = (\<lambda>g. (Fin (real g), Suc g)),
       default_rng = (\<lambda>e. (e, Suc e)) \<rparr>"

definition example_frames :: "nat \<Rightarrow> int \<Rightarrow> int \<Rightarrow> int \<Rightarrow> bool \<Rightarrow> nat" where
  "example_frames n frame_length hop fft_length centered =
     nat (1 + (int n - frame_length) div hop)"

text \<open>An extractor with an FFT length of 4, a hop length of 2 and one mel bin.\<close>

definition example_extractor :: extractor where
  "example_extractor =
     (default_extractor [Fin 1, Fin 1, Fin 1, Fin 1] (Array2 3 1 (\<lambda>f m. Fin 1)))
       \<lparr> num_mel_bins := 1, hop_length := 2, win_length := 4, filter_length := Some 4,
         n_fft := 4, n_freqs := 3 \<rparr>"

definition example_args :: call_args where
  "example_args =
     \<lparr> sampling_rate_arg = Some 24000, padding = PaddingBool True, max_length = None,
       truncation = True, pad_to_multiple_of = None, return_noise = True,
       model_in_channels_arg = None, pad_end = False, pad_length = None,
       spectrogram_zero_arg = None, do_normalize_arg = None, return_tensors = None \<rparr>"

definition example_waveform :: "npfloat list" where
  "example_waveform = [Fin 0, Fin 1, Fin 2, Fin 3, Fin 4]"

section \<open>Properties\<close>

subsection \<open>Auxiliary facts\<close>

lemma np_sub_Fin [simp]: "np_sub (Fin a) (Fin b) = Fin (a - b)"
  by (simp add: np_sub_def)

text \<open>Casting to \<^verbatim>\<open>float32\<close>.\<close>

lemma floor_log2:
  assumes "2 powr (of_int e) \<le> x" and "x < 2 powr (of_int e + 1)"
  shows "\<lfloor>log 2 x\<rfloor> = e"
proof -
  have pos: "0 < x" using assms(1) by (smt (verit) powr_gt_zero)
  have "of_int e \<le> log 2 x" using assms(1) pos by (simp add: le_log_iff)
  moreover have "log 2 x < of_int e + 1" using assms(2) pos by (simp add: log_less_iff)
  ultimately show ?thesis by linarith
qed

lemma round_half_even_near:
  assumes "\<bar>q - of_int n\<bar> < 1 / 2"
  shows "round_half_even q = n"
proof -
  from assms have "\<lfloor>q\<rfloor> = n \<or> \<lfloor>q\<rfloor> = n - 1" by linarith
  with assms show ?thesis
    unfolding round_half_even_def Let_def by (auto; linarith)
qed

lemma float32_zero [simp]: "float32 0 = Fin 0"
  by (simp add: float32_def)

text \<open>The default \<^verbatim>\<open>spectrogram_zero\<close>, \<open>-11.5129\<close>, is not a \<^verbatim>\<open>float32\<close> number.\<close>

lemma float32_default_zero: "float32 (- 115129 / 10 ^ 4) = Fin (- 12072151 / 1048576)"
proof -
  have e: "\<lfloor>log 2 \<bar>- 115129 / 10 ^ 4 :: real\<bar>\<rfloor> = 3"
    by (rule floor_log2) simp_all
  have u: "two_to (max 3 (- 126) - 23) = 1 / 1048576"
    by (simp add: two_to_def)
  have r: "round_half_even ((- 115129 / 10 ^ 4) / (1 / 1048576)) = - 12072151"
    by (rule round_half_even_near) simp
  show ?thesis
    unfolding float32_def Let_def e u r by simp
qed

text \<open>A fill value beyond the range of \<^verbatim>\<open>float32\<close> becomes an infinity.\<close>

lemma float32_overflow: "float32 (2 ^ 128) = PInf"
proof -
  have e: "\<lfloor>log 2 \<bar>2 ^ 128 :: real\<bar>\<rfloor> = 128"
    by (rule floor_log2) (simp_all add: powr_realpow [symmetric] powr_add)
  have u: "two_to (max 128 (- 126) - 23) = 2 ^ 105"
    by (simp add: two_to_def)
  have r: "round_half_even (2 ^ 128 / 2 ^ 105) = 2 ^ 23"
    by (rule round_half_even_near) simp
  show ?thesis
    unfolding float32_def Let_def e u r by simp
qed

lemma np_pad_reflect_length:
  "np_pad_reflect a p = Inr b \<Longrightarrow> length b = length a + 2 * nat p"
  by (auto simp: np_pad_reflect_def split: if_splits)

lemma map_result_length: "map_result f xs = Inr ys \<Longrightarrow> length ys = length xs"
  by (induction xs arbitrary: ys) (auto split: sum.splits)

lemma map_result_nth:
  "map_result f xs = Inr ys \<Longrightarrow> i < length xs \<Longrightarrow> f (xs ! i) = Inr (ys ! i)"
proof (induction xs arbitrary: ys i)
  case Nil
  then show ?case by simp
next
  case (Cons x xs)
  then show ?case by (cases i) (auto split: sum.splits)
qed

lemma map_result_error: "map_result f xs = Inl e \<Longrightarrow> \<exists>x \<in> set xs. f x = Inl e"
  by (induction xs) (auto split: sum.splits)

lemma map_sum_Some_Inl [simp]: "map_sum id Some r = Inl e \<longleftrightarrow> r = Inl e"
  by (cases r) auto

lemma map_sum_Some_Inr [simp]:
  "map_sum id Some r = Inr v \<longleftrightarrow> (\<exists>ns. r = Inr ns \<and> v = Some ns)"
  by (cases r) auto

text \<open>Which exceptions each stage of \<^verbatim>\<open>__call__\<close> can raise.\<close>

lemma mel_spectrogram_errors: "mel_spectrogram K self w = Inl e \<Longrightarrow> e \<in> later_errors"
  by (auto simp: mel_spectrogram_def np_pad_reflect_def np_matmul_def Let_def later_errors_def
      split: sum.splits option.splits if_splits)

lemma pad_spectrogram_end_errors:
  "pad_spectrogram_end self s n z = Inl e \<Longrightarrow> e \<in> later_errors"
  by (auto simp: pad_spectrogram_end_def np_full_def np_concatenate_def Let_def later_errors_def
      split: sum.splits option.splits if_splits)

lemma padded_spectrograms_errors:
  assumes "padded_spectrograms K self a batch = Inl e"
  shows "e \<in> later_errors"
proof (cases "mel_spectrograms K self a batch")
  case (Inl x)
  with assms have "e = x" by (simp add: padded_spectrograms_def)
  with Inl show ?thesis
    by (auto simp: mel_spectrograms_def later_errors_def
        split: option.splits sum.splits if_splits
        dest!: map_result_error dest: mel_spectrogram_errors)
next
  case (Inr mels)
  with assms show ?thesis
    by (auto simp: padded_spectrograms_def split: if_splits
        dest!: map_result_error dest: pad_spectrogram_end_errors)
qed

lemma generate_noise_errors:
  "generate_noise K self n ch g e = (Inl err, g', e') \<Longrightarrow> err \<in> later_errors"
  by (auto simp: generate_noise_def standard_normal_def Let_def later_errors_def
      split: sum.splits option.splits if_splits prod.splits)

lemma generate_noises_errors:
  "generate_noises K self ch specs g e = (Inl err, g', e') \<Longrightarrow> err \<in> later_errors"
  by (induction specs arbitrary: g e g' e')
     (auto split: sum.splits prod.splits dest: generate_noise_errors)

lemma call_errors:
  assumes out: "outcome (call K self raw a g e) = Inl err"
  shows "(\<exists>r. sampling_rate_arg a = Some r \<and> r \<noteq> sampling_rate self \<and>
              err = SamplingRateMismatch (sampling_rate self) r)
         \<or> ((\<exists>d0 d1 d2 ds. raw = NdarrayN d0 d1 d2 ds) \<and> err = MonoChannelOnly)
         \<or> err \<in> later_errors"
proof (cases "check_sampling_rate self (sampling_rate_arg a)")
  case (Inl x)
  with out show ?thesis
    by (auto simp: call_def check_sampling_rate_def split: option.splits if_splits)
next
  case ws: (Inr ws)
  show ?thesis
  proof (cases "batch_raw_speech raw")
    case (Inl x)
    with out ws have "err = x" by (simp add: call_def)
    with Inl show ?thesis
      by (cases raw rule: batch_raw_speech.cases) (auto simp: later_errors_def)
  next
    case batch: (Inr batch)
    show ?thesis
    proof (cases "padded_spectrograms K self a batch")
      case (Inl x)
      with out ws batch have "err = x" by (simp add: call_def)
      with Inl show ?thesis by (auto dest: padded_spectrograms_errors)
    next
      case specs: (Inr specs)
      from out ws batch specs have "err \<in> later_errors"
        by (auto simp: call_def convert_to_tensors_def later_errors_def
            split: if_splits prod.splits sum.splits option.splits
            dest: generate_noises_errors)
      then show ?thesis by simp
    qed
  qed
qed

text \<open>What a call that returns went through.\<close>

lemma call_returns:
  assumes out: "outcome (call K self raw a g e) = Inr out"
  shows "\<exists>ws batch specs.
    check_sampling_rate self (sampling_rate_arg a) = Inr ws \<and>
    batch_raw_speech raw = Inr batch \<and>
    padded_spectrograms K self a batch = Inr specs \<and>
    spectrogram out =
       (if (case do_normalize_arg a of Some b \<Rightarrow> b | None \<Rightarrow> do_normalize self)
        then map (map_array2 (normalize_spectrogram self)) specs else specs) \<and>
    (return_noise a \<longrightarrow>
       (\<exists>ns g' e'. generate_noises K self (model_in_channels_arg a) specs g e = (Inr ns, g', e')
                  \<and> noise_sequence out = Some ns)) \<and>
    (\<not> return_noise a \<longrightarrow> noise_sequence out = None)"
proof (cases "check_sampling_rate self (sampling_rate_arg a)")
  case (Inl x)
  with out show ?thesis by (simp add: call_def)
next
  case ws: (Inr ws)
  show ?thesis
  proof (cases "batch_raw_speech raw")
    case (Inl x)
    with out ws show ?thesis by (simp add: call_def)
  next
    case batch: (Inr batch)
    show ?thesis
    proof (cases "padded_spectrograms K self a batch")
      case (Inl x)
      with out ws batch show ?thesis by (simp add: call_def)
    next
      case specs: (Inr specs)
      from out ws batch specs
      have "spectrogram out =
              (if (case do_normalize_arg a of Some b \<Rightarrow> b | None \<Rightarrow> do_normalize self)
               then map (map_array2 (normalize_spectrogram self)) specs else specs)"
        by (auto simp: call_def convert_to_tensors_def Let_def
            split: if_splits prod.splits sum.splits option.splits)
      moreover from out ws batch specs
      have "return_noise a \<Longrightarrow>
              \<exists>ns g' e'. generate_noises K self (model_in_channels_arg a) specs g e
                            = (Inr ns, g', e')
                  \<and> noise_sequence out = Some ns"
        by (auto simp: call_def convert_to_tensors_def Let_def
            split: if_splits prod.splits sum.splits option.splits)
      moreover from out ws batch specs
      have "\<not> return_noise a \<Longrightarrow> noise_sequence out = None"
        by (auto simp: call_def convert_to_tensors_def Let_def
            split: if_splits prod.splits sum.splits option.splits)
      ultimately show ?thesis using ws batch specs by blast
    qed
  qed
qed

lemma call_warnings:
  "warnings (call K self raw a g e) =
     (case check_sampling_rate self (sampling_rate_arg a) of Inl x \<Rightarrow> [] | Inr ws \<Rightarrow> ws)"
  by (auto simp: call_def Let_def split: sum.splits prod.splits)

lemma pad_spectrogram_end_returns:
  assumes "pad_spectrogram_end self s n z = Inr p"
  shows "0 \<le> (case n of None \<Rightarrow> pad_end_length self | Some k \<Rightarrow> k) \<and>
         p = Array2 (shape0 s + nat (case n of None \<Rightarrow> pad_end_length self | Some k \<Rightarrow> k))
               (shape1 s)
               (\<lambda>i j. if i < shape0 s then item s i j
                      else float32 (case z of None \<Rightarrow> spectrogram_zero self | Some v \<Rightarrow> v))"
  using assms
  by (auto simp: pad_spectrogram_end_def np_full_def np_concatenate_def Let_def
      split: if_splits option.splits cong: if_cong)

lemma mel_spectrograms_pad_end [simp]:
  "mel_spectrograms K self (a\<lparr>pad_end := b\<rparr>) batch = mel_spectrograms K self a batch"
  by (simp add: mel_spectrograms_def)

lemma generate_noise_shape:
  assumes "generate_noise K self n ch g e = (Inr noise, g', e')"
  shows "int (shape0 noise) = n \<and>
         int (shape1 noise) = (case ch of None \<Rightarrow> model_in_channels self | Some m \<Rightarrow> m)"
  using assms
  by (auto simp: generate_noise_def standard_normal_def Let_def
      split: if_splits option.splits prod.splits sum.splits)

lemma generate_noises_shapes:
  assumes "generate_noises K self ch specs g e = (Inr ns, g', e')"
  shows "length ns = length specs \<and>
         (\<forall>i < length specs.
            shape0 (ns ! i) = shape0 (specs ! i) \<and>
            int (shape1 (ns ! i)) = (case ch of None \<Rightarrow> model_in_channels self | Some m \<Rightarrow> m))"
  using assms
proof (induction specs arbitrary: ns g e g' e')
  case Nil
  then show ?case by simp
next
  case (Cons s ss)
  from Cons.prems obtain noise g1 e1 rest where
    first: "generate_noise K self (int (shape0 s)) ch g e = (Inr noise, g1, e1)" and
    rest: "generate_noises K self ch ss g1 e1 = (Inr rest, g', e')" and
    ns: "ns = noise # rest"
    by (auto split: prod.splits sum.splits)
  from generate_noise_shape [OF first] Cons.IH [OF rest] ns show ?case
    by (auto simp: nth_Cons split: nat.splits)
qed

text \<open>With a generator supplied, no entropy is read.\<close>

lemma generate_noise_supplied:
  "generate_noise K self n ch (Some g) e =
     (case standard_normal K g n (case ch of None \<Rightarrow> model_in_channels self | Some m \<Rightarrow> m) of
        Inl x \<Rightarrow> (Inl x, Some g, e)
      | Inr (noise, g') \<Rightarrow> (Inr noise, Some g', e))"
  by (simp add: generate_noise_def split: sum.splits prod.splits)

lemma generate_noises_supplied:
  "\<exists>r g'. \<forall>e. generate_noises K self ch specs (Some g) e = (r, Some g', e)"
proof (induction specs arbitrary: g)
  case Nil
  show ?case by simp
next
  case (Cons s ss)
  show ?case
  proof (cases "standard_normal K g (int (shape0 s))
                  (case ch of None \<Rightarrow> model_in_channels self | Some m \<Rightarrow> m)")
    case (Inl x)
    then show ?thesis by (simp add: generate_noise_supplied)
  next
    case (Inr p)
    obtain noise g1 where p: "p = (noise, g1)" by (cases p)
    from Cons.IH [of g1] obtain r g' where
      rest: "\<forall>e. generate_noises K self ch ss (Some g1) e = (r, Some g', e)" by blast
    show ?thesis
    proof (cases r)
      case (Inl x)
      with Inr p rest show ?thesis by (simp add: generate_noise_supplied)
    next
      case r: (Inr noises)
      with Inr p rest show ?thesis by (simp add: generate_noise_supplied)
    qed
  qed
qed

text \<open>The worked example, stage by stage.\<close>

lemma example_pad:
  "np_pad_reflect example_waveform 1 = Inr [Fin 1, Fin 0, Fin 1, Fin 2, Fin 3, Fin 4, Fin 3]"
  by (simp add: np_pad_reflect_def example_waveform_def reflect_index_def upt_conv_Cons)

lemma example_mel:
  "\<exists>mel. mel_spectrogram example_collaborators example_extractor example_waveform = Inr mel \<and>
         shape0 mel = 2 \<and> shape1 mel = 1"
  by (simp add: mel_spectrogram_def example_pad example_collaborators_def example_extractor_def
        default_extractor_def int_half_def np_matmul_def transpose_array2_def map_array2_def
        add_array2_def Let_def)

lemma example_frame_count: "frame_count_is example_collaborators example_frames"
  by (auto simp: frame_count_is_def example_collaborators_def example_frames_def
      split: if_splits)

lemma dynamic_range_compression_bounds:
  "dynamic_range_compression (X\<lparr>normalize_min := lo, normalize_max := hi\<rparr>)
     = dynamic_range_compression X"
  by (rule ext) (simp add: dynamic_range_compression_def)

lemma mel_spectrogram_bounds [simp]:
  "mel_spectrogram K (X\<lparr>normalize_min := lo, normalize_max := hi\<rparr>) w = mel_spectrogram K X w"
  by (simp add: mel_spectrogram_def dynamic_range_compression_bounds Let_def
      cong: sum.case_cong option.case_cong)

lemma example_mel_spectrograms:
  assumes "mel_spectrogram example_collaborators X example_waveform = Inr mel"
  shows "mel_spectrograms example_collaborators X a [example_waveform] = Inr [mel]"
  using assms by (simp add: mel_spectrograms_def example_collaborators_def)

lemma example_call:
  assumes mel: "mel_spectrogram example_collaborators X example_waveform = Inr mel"
    and X: "sampling_rate X = 24000" "do_normalize X = False"
    and a: "sampling_rate_arg a = Some 24000" "\<not> return_noise a" "return_tensors a = None"
  shows "outcome (call example_collaborators X (Ndarray1 example_waveform) a g e) =
      (case (if pad_end a
             then pad_spectrogram_end X mel (pad_length a) (spectrogram_zero_arg a)
             else Inr mel) of
        Inl x \<Rightarrow> Inl x
      | Inr s \<Rightarrow> Inr \<lparr>spectrogram =
             [if (case do_normalize_arg a of Some b \<Rightarrow> b | None \<Rightarrow> False)
              then map_array2 (normalize_spectrogram X) s else s],
           noise_sequence = None\<rparr>)"
proof -
  have sr: "check_sampling_rate X (Some 24000) = Inr []"
    by (simp add: check_sampling_rate_def X)
  show ?thesis
    using a
    by (simp add: call_def sr X padded_spectrograms_def example_mel_spectrograms [OF mel]
          convert_to_tensors_def Let_def split: sum.splits option.splits)
qed

lemma example_fields:
  "sampling_rate example_extractor = 24000" "do_normalize example_extractor = False"
  "pad_end_length example_extractor = 10"
  "spectrogram_zero example_extractor = - 115129 / 10 ^ 4"
  "model_in_channels example_extractor = 64"
  by (simp_all add: example_extractor_def default_extractor_def)

subsection \<open>The log-mel pipeline\<close>

text \<open>
  Claim C1. For every mono waveform, \<^verbatim>\<open>mel_spectrogram\<close> computes the log-mel spectrogram
  by this sequence: reflect-pad the waveform; take the complex spectrogram with the
  precomputed window, the FFT length and the hop length; form the magnitude
  \<open>sqrt(real\<^sup>2 + imag\<^sup>2 + mel_floor)\<close>, the floor inside the square root and before the
  mel projection; multiply the transposed mel filter bank by the magnitudes; take the
  natural logarithm of \<open>clip(x, compression_clip_val, unbounded) * compression_factor\<close>;
  transpose, so that frames are the leading axis. The array-level code and the item-wise
  wording of the specification are the same function, exceptions included.
\<close>

theorem mel_spectrogram_is_spec_pipeline:
  "mel_spectrogram K self waveform = spec_log_mel K self waveform"
  by (auto simp: mel_spectrogram_def spec_log_mel_def np_matmul_def transpose_array2_def
        map_array2_def add_array2_def spec_compression_def dynamic_range_compression_def
        spec_mel_projection_def spec_magnitude_def Let_def
      split: sum.splits option.splits)

subsection \<open>The frame count\<close>

text \<open>
  Claim C3. The waveform of length \<open>L\<close> is reflect-padded by \<open>(n_fft - hop_length) / 2\<close>
  samples on each side, and the spectrogram that \<^verbatim>\<open>mel_spectrogram\<close> returns has as
  many frames as the spectrogram primitive makes of a waveform of that padded length: a
  function of \<open>L\<close>, the FFT length, the hop length and the padding (and of the centering
  flag of the configuration). Whenever \<^verbatim>\<open>mel_spectrogram\<close> returns, the difference
  \<open>n_fft - hop_length\<close> is at least \<open>-1\<close>, and the padding is its half rounded toward
  zero.
\<close>

theorem mel_spectrogram_frame_count:
  assumes "frame_count_is K frames" and "mel_spectrogram K self waveform = Inr mel"
  shows "shape0 mel =
           frames (length waveform + 2 * nat ((n_fft self - hop_length self) div 2))
             (n_fft self) (hop_length self) (n_fft self) (center self) \<and>
         nat ((n_fft self - hop_length self) div 2) = nat (int_half (n_fft self - hop_length self))"
proof -
  from assms(2) obtain padded where
    padded: "np_pad_reflect waveform (int_half (n_fft self - hop_length self)) = Inr padded"
    by (auto simp: mel_spectrogram_def split: sum.splits)
  then have "0 \<le> int_half (n_fft self - hop_length self)"
    by (auto simp: np_pad_reflect_def split: if_splits)
  then have half: "nat ((n_fft self - hop_length self) div 2)
                     = nat (int_half (n_fft self - hop_length self))"
    by (auto simp: int_half_def split: if_splits)
  from assms padded np_pad_reflect_length [OF padded]
  have "shape0 mel =
          frames (length waveform + 2 * nat (int_half (n_fft self - hop_length self)))
            (n_fft self) (hop_length self) (n_fft self) (center self)"
    by (auto simp: mel_spectrogram_def frame_count_is_def np_matmul_def transpose_array2_def
          map_array2_def add_array2_def Let_def
        split: sum.splits option.splits if_splits)
  with half show ?thesis by simp
qed

text \<open>
  Five samples, an FFT length of 4 and a hop length of 2: one sample of padding on each
  side, seven samples in all, two frames.
\<close>

theorem mel_spectrogram_frame_count_witness:
  "frame_count_is example_collaborators example_frames \<and>
   mel_spectrogram example_collaborators example_extractor example_waveform =
     Inr (projr (mel_spectrogram example_collaborators example_extractor example_waveform)) \<and>
   length example_waveform = 5 \<and>
   (n_fft example_extractor - hop_length example_extractor) div 2 = 1 \<and>
   shape0 (projr (mel_spectrogram example_collaborators example_extractor example_waveform)) = 2"
proof -
  from example_mel
  have r: "mel_spectrogram example_collaborators example_extractor example_waveform =
     Inr (projr (mel_spectrogram example_collaborators example_extractor example_waveform))"
    by auto
  have fields: "n_fft example_extractor = 4" "hop_length example_extractor = 2"
    "center example_extractor = False" "length example_waveform = 5"
    by (simp_all add: example_extractor_def default_extractor_def example_waveform_def)
  have frames: "example_frames (5 + 2 * nat ((4 - 2) div 2)) 4 2 4 False = 2"
    by (simp add: example_frames_def)
  from mel_spectrogram_frame_count [OF example_frame_count r]
  have "shape0 (projr (mel_spectrogram example_collaborators example_extractor
                         example_waveform)) = 2"
    by (simp only: fields frames)
  with example_frame_count r fields show ?thesis by simp
qed

subsection \<open>The two validations\<close>

text \<open>
  Claim C4. A call with an explicit sampling rate that differs from the configured one
  fails with the error that carries the configured and the received rate, whatever the
  other arguments are. A call without a sampling rate logs the warning and does not fail
  with that error.
\<close>

theorem call_sampling_rate_check:
  "(sampling_rate_arg a = Some r \<and> r \<noteq> sampling_rate self \<longrightarrow>
      outcome (call K self raw a g e) = Inl (SamplingRateMismatch (sampling_rate self) r)) \<and>
   (sampling_rate_arg a = None \<longrightarrow>
      warnings (call K self raw a g e) = [SamplingRateNotPassed] \<and>
      (\<forall>expected received.
         outcome (call K self raw a g e) \<noteq> Inl (SamplingRateMismatch expected received)))"
proof (intro conjI impI allI)
  assume "sampling_rate_arg a = Some r \<and> r \<noteq> sampling_rate self"
  then show "outcome (call K self raw a g e) = Inl (SamplingRateMismatch (sampling_rate self) r)"
    by (simp add: call_def check_sampling_rate_def)
next
  assume "sampling_rate_arg a = None"
  then show "warnings (call K self raw a g e) = [SamplingRateNotPassed]"
    by (simp add: call_warnings check_sampling_rate_def)
next
  fix expected received
  assume none: "sampling_rate_arg a = None"
  show "outcome (call K self raw a g e) \<noteq> Inl (SamplingRateMismatch expected received)"
  proof
    assume "outcome (call K self raw a g e) = Inl (SamplingRateMismatch expected received)"
    from call_errors [OF this] none show False by (auto simp: later_errors_def)
  qed
qed

text \<open>A call at 16000 Hz to an extractor configured for 24000 Hz, and a call without a rate.\<close>

theorem call_sampling_rate_check_witness:
  "sampling_rate_arg (example_args\<lparr>sampling_rate_arg := Some 16000\<rparr>) = Some 16000 \<and>
   16000 \<noteq> sampling_rate example_extractor \<and>
   outcome (call example_collaborators example_extractor (Ndarray1 example_waveform)
              (example_args\<lparr>sampling_rate_arg := Some 16000\<rparr>) None 0)
     = Inl (SamplingRateMismatch 24000 16000) \<and>
   sampling_rate_arg (example_args\<lparr>sampling_rate_arg := None\<rparr>) = None \<and>
   warnings (call example_collaborators example_extractor (Ndarray1 example_waveform)
               (example_args\<lparr>sampling_rate_arg := None\<rparr>) None 0)
     = [SamplingRateNotPassed] \<and>
   outcome (call example_collaborators example_extractor (Ndarray1 example_waveform)
               (example_args\<lparr>sampling_rate_arg := None\<rparr>) None 0)
     \<noteq> Inl (SamplingRateMismatch 24000 16000)"
proof -
  have rate: "sampling_rate example_extractor = 24000"
    by (simp add: example_extractor_def default_extractor_def)
  from call_sampling_rate_check
         [of "example_args\<lparr>sampling_rate_arg := Some 16000\<rparr>" 16000 example_extractor
             example_collaborators "Ndarray1 example_waveform" None 0]
       call_sampling_rate_check
         [of "example_args\<lparr>sampling_rate_arg := None\<rparr>" 16000 example_extractor
             example_collaborators "Ndarray1 example_waveform" None 0]
  show ?thesis by (simp add: rate)
qed

text \<open>
  Claim C5, as amended. A call with an array of three or more dimensions always fails:
  with the sampling-rate error when an explicit rate differs from the configured one (that
  check comes first), and with the shape error otherwise, whatever the number of channels.
  An array of two dimensions never meets the shape error.
\<close>

theorem call_refuses_three_dimensions:
  "outcome (call K self (NdarrayN d0 d1 d2 ds) a g e) =
     (case sampling_rate_arg a of
        Some r \<Rightarrow>
          if r \<noteq> sampling_rate self then Inl (SamplingRateMismatch (sampling_rate self) r)
          else Inl MonoChannelOnly
      | None \<Rightarrow> Inl MonoChannelOnly) \<and>
   outcome (call K self (Ndarray2 rows) a g e) \<noteq> Inl MonoChannelOnly"
proof
  show "outcome (call K self (NdarrayN d0 d1 d2 ds) a g e) =
     (case sampling_rate_arg a of
        Some r \<Rightarrow>
          if r \<noteq> sampling_rate self then Inl (SamplingRateMismatch (sampling_rate self) r)
          else Inl MonoChannelOnly
      | None \<Rightarrow> Inl MonoChannelOnly)"
    by (simp add: call_def check_sampling_rate_def split: option.splits)
next
  show "outcome (call K self (Ndarray2 rows) a g e) \<noteq> Inl MonoChannelOnly"
  proof
    assume "outcome (call K self (Ndarray2 rows) a g e) = Inl MonoChannelOnly"
    from call_errors [OF this] show False by (auto simp: later_errors_def)
  qed
qed

text \<open>
  Claim C5 as stated fails for an array of shape (1, 2, 5), two channels, passed with
  16000 Hz to an extractor configured for 24000 Hz: the call fails with the sampling-rate
  error, not with the shape error.
\<close>

theorem call_three_dimensions_wrong_rate_counterexample:
  "outcome (call example_collaborators example_extractor (NdarrayN 1 2 5 [])
              (example_args\<lparr>sampling_rate_arg := Some 16000\<rparr>) None 0)
     = Inl (SamplingRateMismatch 24000 16000) \<and>
   outcome (call example_collaborators example_extractor (NdarrayN 1 2 5 [])
              (example_args\<lparr>sampling_rate_arg := Some 16000\<rparr>) None 0)
     \<noteq> Inl MonoChannelOnly"
  by (simp add: call_def check_sampling_rate_def example_extractor_def default_extractor_def)

subsection \<open>Padding the end, and the noise\<close>

text \<open>
  Claim C6, as amended. Take a call with end-padding and the same call without, both
  returning, with pad length \<open>N\<close> and zero value \<open>Z\<close> (the caller's or the configured
  ones). Then \<open>N\<close> is not negative, the two batches have the same length, and for every
  item: the padded spectrogram has \<open>N\<close> more frames and the same bins, its first frames
  are those of the unpadded one, and all bins of its last \<open>N\<close> frames hold one and the
  same value. When the call does not normalise, that value is \<open>Z\<close> as cast to
  \<^verbatim>\<open>float32\<close> (line 298), which is \<open>Z\<close> itself when \<open>Z\<close> is a \<^verbatim>\<open>float32\<close> number.
\<close>

theorem call_pad_end_frames:
  assumes padded: "outcome (call K self raw (a\<lparr>pad_end := True\<rparr>) g e) = Inr padded"
    and unpadded: "outcome (call K self raw (a\<lparr>pad_end := False\<rparr>) g e) = Inr unpadded"
    and i: "i < length (spectrogram unpadded)"
  shows "length (spectrogram padded) = length (spectrogram unpadded) \<and>
         0 \<le> (case pad_length a of None \<Rightarrow> pad_end_length self | Some n \<Rightarrow> n) \<and>
         shape0 (spectrogram padded ! i) =
           shape0 (spectrogram unpadded ! i)
             + nat (case pad_length a of None \<Rightarrow> pad_end_length self | Some n \<Rightarrow> n) \<and>
         shape1 (spectrogram padded ! i) = shape1 (spectrogram unpadded ! i) \<and>
         (t < shape0 (spectrogram unpadded ! i) \<longrightarrow>
            item (spectrogram padded ! i) t m = item (spectrogram unpadded ! i) t m) \<and>
         (shape0 (spectrogram unpadded ! i) \<le> t \<and> t < shape0 (spectrogram padded ! i) \<and>
          m < shape1 (spectrogram padded ! i) \<and>
          shape0 (spectrogram unpadded ! i) \<le> t' \<and> t' < shape0 (spectrogram padded ! i) \<and>
          m' < shape1 (spectrogram padded ! i) \<longrightarrow>
            item (spectrogram padded ! i) t m = item (spectrogram padded ! i) t' m') \<and>
         (\<not> (case do_normalize_arg a of Some b \<Rightarrow> b | None \<Rightarrow> do_normalize self) \<and>
          shape0 (spectrogram unpadded ! i) \<le> t \<and> t < shape0 (spectrogram padded ! i) \<and>
          m < shape1 (spectrogram padded ! i) \<longrightarrow>
            item (spectrogram padded ! i) t m =
              float32 (case spectrogram_zero_arg a of
                         None \<Rightarrow> spectrogram_zero self | Some z \<Rightarrow> z))"
proof -
  from call_returns [OF padded] obtain batch specs where
    batch: "batch_raw_speech raw = Inr batch" and
    specs: "padded_spectrograms K self (a\<lparr>pad_end := True\<rparr>) batch = Inr specs" and
    sp: "spectrogram padded =
       (if (case do_normalize_arg a of Some b \<Rightarrow> b | None \<Rightarrow> do_normalize self)
        then map (map_array2 (normalize_spectrogram self)) specs else specs)"
    by auto
  from call_returns [OF unpadded] batch obtain mels where
    mels: "padded_spectrograms K self (a\<lparr>pad_end := False\<rparr>) batch = Inr mels" and
    su: "spectrogram unpadded =
       (if (case do_normalize_arg a of Some b \<Rightarrow> b | None \<Rightarrow> do_normalize self)
        then map (map_array2 (normalize_spectrogram self)) mels else mels)"
    by auto
  from mels have m: "mel_spectrograms K self a batch = Inr mels"
    by (simp add: padded_spectrograms_def split: sum.splits)
  with specs
  have mr: "map_result (\<lambda>s. pad_spectrogram_end self s (pad_length a) (spectrogram_zero_arg a))
              mels = Inr specs"
    by (simp add: padded_spectrograms_def)
  from su i have i': "i < length mels" by (simp split: if_splits)
  have len: "length specs = length mels" using mr by (rule map_result_length)
  from map_result_nth [OF mr i']
  have "pad_spectrogram_end self (mels ! i) (pad_length a) (spectrogram_zero_arg a)
          = Inr (specs ! i)" .
  from pad_spectrogram_end_returns [OF this] i' len sp su
  show ?thesis
    by (auto simp: map_array2_def)
qed

text \<open>
  The example has two frames; with the configured ten frames of padding it has twelve, and
  the last of them holds the configured zero, \<open>-11.5129\<close>, as \<^verbatim>\<open>float32\<close> has it:
  \<open>-12072151 / 2\<^sup>2\<^sup>0\<close>.
\<close>

theorem call_pad_end_frames_witness:
  "\<not> isl (outcome (call example_collaborators example_extractor (Ndarray1 example_waveform)
                     (example_args\<lparr>return_noise := False, pad_end := True\<rparr>) None 0)) \<and>
   \<not> isl (outcome (call example_collaborators example_extractor (Ndarray1 example_waveform)
                     (example_args\<lparr>return_noise := False, pad_end := False\<rparr>) None 0)) \<and>
   shape0 (spectrogram (projr (outcome (call example_collaborators example_extractor
             (Ndarray1 example_waveform)
             (example_args\<lparr>return_noise := False, pad_end := False\<rparr>) None 0))) ! 0) = 2 \<and>
   shape0 (spectrogram (projr (outcome (call example_collaborators example_extractor
             (Ndarray1 example_waveform)
             (example_args\<lparr>return_noise := False, pad_end := True\<rparr>) None 0))) ! 0) = 12 \<and>
   item (spectrogram (projr (outcome (call example_collaborators example_extractor
             (Ndarray1 example_waveform)
             (example_args\<lparr>return_noise := False, pad_end := True\<rparr>) None 0))) ! 0) 11 0 =
     Fin (- 12072151 / 1048576) \<and>
   item (spectrogram (projr (outcome (call example_collaborators example_extractor
             (Ndarray1 example_waveform)
             (example_args\<lparr>return_noise := False, pad_end := True\<rparr>) None 0))) ! 0) 2 0 =
     item (spectrogram (projr (outcome (call example_collaborators example_extractor
             (Ndarray1 example_waveform)
             (example_args\<lparr>return_noise := False, pad_end := True\<rparr>) None 0))) ! 0) 11 0"
proof -
  let ?a = "example_args\<lparr>return_noise := False\<rparr>"
  let ?p = "outcome (call example_collaborators example_extractor (Ndarray1 example_waveform)
                     (?a\<lparr>pad_end := True\<rparr>) None 0)"
  let ?u = "outcome (call example_collaborators example_extractor (Ndarray1 example_waveform)
                     (?a\<lparr>pad_end := False\<rparr>) None 0)"
  from example_mel obtain mel where
    mel: "mel_spectrogram example_collaborators example_extractor example_waveform = Inr mel"
    and shape: "shape0 mel = 2" "shape1 mel = 1"
    by blast
  note call = example_call [OF mel example_fields(1,2)]
  have u: "?u = Inr \<lparr>spectrogram = [mel], noise_sequence = None\<rparr>"
    by (simp add: call example_args_def)
  have np: "\<not> isl ?p"
    by (simp add: call example_args_def pad_spectrogram_end_def np_full_def
          np_concatenate_def example_fields)
  then have p: "?p = Inr (projr ?p)" by simp
  from u have u': "?u = Inr (projr ?u)" by simp
  from u shape have i: "0 < length (spectrogram (projr ?u))" by simp
  have fields: "pad_length ?a = None" "spectrogram_zero_arg ?a = None"
    "do_normalize_arg ?a = None"
    by (simp_all add: example_args_def)
  have z: "float32 (- (115129 / 10000)) = Fin (- (12072151 / 1048576))"
    using float32_default_zero by simp
  from call_pad_end_frames [OF p u' i, of 11 0 2 0] call_pad_end_frames [OF p u' i, of 2 0 11 0]
       u shape np
  show ?thesis
    by (simp add: fields example_fields z)
qed

text \<open>
  Claim C6 as stated fails when the call normalises: normalisation comes after the padding
  (lines 434--450). With the normalisation bounds 0 and 1 and the zero value 0, the last
  frame of the example is padded with 0 and then normalised to \<open>2 * ((0 - 0) / (1 - 0)) - 1\<close>,
  which is \<open>-1\<close> (in the code as here: every step is exact), not 0.
\<close>

theorem call_pad_end_normalized_counterexample:
  "\<not> isl (outcome (call example_collaborators
            (example_extractor\<lparr>normalize_min := 0, normalize_max := 1\<rparr>)
            (Ndarray1 example_waveform)
            (example_args\<lparr>return_noise := False, pad_end := True,
               spectrogram_zero_arg := Some 0, do_normalize_arg := Some True\<rparr>)
            None 0)) \<and>
   shape0 (spectrogram (projr (outcome (call example_collaborators
            (example_extractor\<lparr>normalize_min := 0, normalize_max := 1\<rparr>)
            (Ndarray1 example_waveform)
            (example_args\<lparr>return_noise := False, pad_end := True,
               spectrogram_zero_arg := Some 0, do_normalize_arg := Some True\<rparr>)
            None 0))) ! 0) = 12 \<and>
   item (spectrogram (projr (outcome (call example_collaborators
            (example_extractor\<lparr>normalize_min := 0, normalize_max := 1\<rparr>)
            (Ndarray1 example_waveform)
            (example_args\<lparr>return_noise := False, pad_end := True,
               spectrogram_zero_arg := Some 0, do_normalize_arg := Some True\<rparr>)
            None 0))) ! 0) 11 0 = Fin (- 1) \<and>
   item (spectrogram (projr (outcome (call example_collaborators
            (example_extractor\<lparr>normalize_min := 0, normalize_max := 1\<rparr>)
            (Ndarray1 example_waveform)
            (example_args\<lparr>return_noise := False, pad_end := True,
               spectrogram_zero_arg := Some 0, do_normalize_arg := Some True\<rparr>)
            None 0))) ! 0) 11 0 \<noteq> Fin 0"
proof -
  let ?X = "example_extractor\<lparr>normalize_min := 0, normalize_max := 1\<rparr>"
  from example_mel obtain mel where
    mel: "mel_spectrogram example_collaborators ?X example_waveform = Inr mel"
    and shape: "shape0 mel = 2" "shape1 mel = 1"
    by auto
  have X: "sampling_rate ?X = 24000" "do_normalize ?X = False" "pad_end_length ?X = 10"
    by (simp_all add: example_fields)
  have "\<not> isl (outcome (call example_collaborators ?X (Ndarray1 example_waveform)
            (example_args\<lparr>return_noise := False, pad_end := True,
               spectrogram_zero_arg := Some 0, do_normalize_arg := Some True\<rparr>)
            None 0)) \<and>
   shape0 (spectrogram (projr (outcome (call example_collaborators ?X
            (Ndarray1 example_waveform)
            (example_args\<lparr>return_noise := False, pad_end := True,
               spectrogram_zero_arg := Some 0, do_normalize_arg := Some True\<rparr>)
            None 0))) ! 0) = 12 \<and>
   item (spectrogram (projr (outcome (call example_collaborators ?X
            (Ndarray1 example_waveform)
            (example_args\<lparr>return_noise := False, pad_end := True,
               spectrogram_zero_arg := Some 0, do_normalize_arg := Some True\<rparr>)
            None 0))) ! 0) 11 0 = Fin (- 1)"
    by (simp add: example_call [OF mel X(1,2)] example_args_def pad_spectrogram_end_def
          np_full_def np_concatenate_def map_array2_def normalize_spectrogram_def shape X(3))
  then show ?thesis by simp
qed

text \<open>
  Claim C7. When a call with \<^verbatim>\<open>return_noise=True\<close> returns, it returns one noise array
  per spectrogram; the leading dimension of each is the frame count of its spectrogram as
  returned (end-padding included), and its trailing dimension is the caller's
  \<^verbatim>\<open>model_in_channels\<close> or, without one, the configured one.
\<close>

theorem call_noise_shape:
  assumes "return_noise a"
    and "outcome (call K self raw a g e) = Inr out"
    and "i < length (spectrogram out)"
  shows "\<exists>noise. noise_sequence out = Some noise \<and>
           length noise = length (spectrogram out) \<and>
           shape0 (noise ! i) = shape0 (spectrogram out ! i) \<and>
           int (shape1 (noise ! i)) =
             (case model_in_channels_arg a of None \<Rightarrow> model_in_channels self | Some m \<Rightarrow> m)"
proof -
  from call_returns [OF assms(2)] assms(1) obtain specs ns g' e' where
    sp: "spectrogram out =
       (if (case do_normalize_arg a of Some b \<Rightarrow> b | None \<Rightarrow> do_normalize self)
        then map (map_array2 (normalize_spectrogram self)) specs else specs)" and
    gen: "generate_noises K self (model_in_channels_arg a) specs g e = (Inr ns, g', e')" and
    ns: "noise_sequence out = Some ns"
    by auto
  from sp assms(3) have i: "i < length specs" by (simp split: if_splits)
  from sp i have "shape0 (spectrogram out ! i) = shape0 (specs ! i)"
    by (simp add: map_array2_def)
  with generate_noises_shapes [OF gen] i sp ns show ?thesis
    by (auto split: if_splits)
qed

text \<open>The example: one spectrogram of two frames, one noise array of shape (2, 64).\<close>

theorem call_noise_shape_witness:
  "return_noise example_args \<and>
   \<not> isl (outcome (call example_collaborators example_extractor (Ndarray1 example_waveform)
                     example_args None 0)) \<and>
   length (spectrogram (projr (outcome (call example_collaborators example_extractor
             (Ndarray1 example_waveform) example_args None 0)))) = 1 \<and>
   shape0 (spectrogram (projr (outcome (call example_collaborators example_extractor
             (Ndarray1 example_waveform) example_args None 0))) ! 0) = 2 \<and>
   shape0 (the (noise_sequence (projr (outcome (call example_collaborators example_extractor
             (Ndarray1 example_waveform) example_args None 0)))) ! 0) = 2 \<and>
   shape1 (the (noise_sequence (projr (outcome (call example_collaborators example_extractor
             (Ndarray1 example_waveform) example_args None 0)))) ! 0) = 64"
proof -
  let ?r = "outcome (call example_collaborators example_extractor (Ndarray1 example_waveform)
                     example_args None 0)"
  from example_mel obtain mel where
    mel: "mel_spectrogram example_collaborators example_extractor example_waveform = Inr mel"
    and shape: "shape0 mel = 2" "shape1 mel = 1"
    by blast
  have fields: "return_noise example_args" "sampling_rate_arg example_args = Some 24000"
    "\<not> pad_end example_args" "do_normalize_arg example_args = None"
    "return_tensors example_args = None" "model_in_channels_arg example_args = None"
    "do_normalize example_extractor = False" "model_in_channels example_extractor = 64"
    "sampling_rate example_extractor = 24000"
    by (simp_all add: example_args_def example_extractor_def default_extractor_def)
  have r: "\<not> isl ?r \<and> spectrogram (projr ?r) = [mel]"
    by (simp add: call_def check_sampling_rate_def padded_spectrograms_def
          example_mel_spectrograms [OF mel] fields generate_noise_def standard_normal_def
          convert_to_tensors_def split_beta)
  then have eq: "?r = Inr (projr ?r)" by simp
  from r have i: "0 < length (spectrogram (projr ?r))" by simp
  from call_noise_shape [OF fields(1) eq i] r shape fields show ?thesis by auto
qed

text \<open>
  Claim C8. With a generator supplied, everything a call leaves behind (the batch with its
  noise or the exception, the warnings, the generator afterwards) is a function of the
  collaborators, the extractor, the arguments and the generator's state: the entropy of
  the operating system is neither read nor changed. Two calls with the same inputs and
  generators in the same state return the same noise.
\<close>

theorem call_supplied_generator_only:
  "call K self raw a (Some g) e1 = (call K self raw a (Some g) e2)\<lparr>entropy_after := e1\<rparr>"
proof -
  have noises: "\<And>specs. \<exists>r g'. \<forall>e.
      generate_noises K self (model_in_channels_arg a) specs (Some g) e = (r, Some g', e)"
    by (rule generate_noises_supplied)
  show ?thesis
  proof (cases "check_sampling_rate self (sampling_rate_arg a)")
    case (Inl x)
    then show ?thesis by (simp add: call_def)
  next
    case ws: (Inr ws)
    show ?thesis
    proof (cases "batch_raw_speech raw")
      case (Inl x)
      with ws show ?thesis by (simp add: call_def)
    next
      case batch: (Inr batch)
      show ?thesis
      proof (cases "padded_spectrograms K self a batch")
        case (Inl x)
        with ws batch show ?thesis by (simp add: call_def)
      next
        case specs: (Inr specs)
        from noises [of specs] obtain r g' where
          "\<forall>e. generate_noises K self (model_in_channels_arg a) specs (Some g) e
                 = (r, Some g', e)"
          by blast
        with ws batch specs show ?thesis
          by (cases r) (simp_all add: call_def Let_def)
      qed
    qed
  qed
qed

subsection \<open>Serialisation\<close>

text \<open>
  Claim C9. Whatever \<^verbatim>\<open>super().to_dict()\<close> returns, \<^verbatim>\<open>to_dict\<close> returns it without
  the five derived keys \<^verbatim>\<open>window\<close>, \<^verbatim>\<open>mel_filters\<close>, \<^verbatim>\<open>n_fft\<close>, \<^verbatim>\<open>n_freqs\<close> and
  \<^verbatim>\<open>num_max_samples\<close>, and with every other key, the constructor's parameters among
  them, as it was.
\<close>

theorem to_dict_drops_derived:
  "to_dict output ''window'' = None \<and>
   to_dict output ''mel_filters'' = None \<and>
   to_dict output ''n_fft'' = None \<and>
   to_dict output ''n_freqs'' = None \<and>
   to_dict output ''num_max_samples'' = None \<and>
   (key \<notin> set names \<longrightarrow> to_dict output key = output key)"
  by (auto simp: to_dict_def names_def split: option.splits)

theorem to_dict_drops_derived_witness:
  "''hop_length'' \<notin> set names \<and>
   to_dict [''hop_length'' \<mapsto> (256::int), ''n_fft'' \<mapsto> 1024] ''hop_length'' = Some 256 \<and>
   to_dict [''hop_length'' \<mapsto> (256::int), ''n_fft'' \<mapsto> 1024] ''n_fft'' = None"
  using to_dict_drops_derived
          [of "[''hop_length'' \<mapsto> (256::int), ''n_fft'' \<mapsto> 1024]" "''hop_length''"]
  by (simp add: names_def)

end
